theory Spec2Isabelle
  imports Main "HOL-Library.Word" "HOL-Library.Sublist"
begin

unbundle bit_operations_syntax

section \<open>\<^verbatim>\<open>simple_read.c\<close>: the session configuration\<close>

text \<open>
  The program under study is the RDMA read test \<^verbatim>\<open>examples/rdma_test/simple_read.c\<close>
  and the two register tools \<^verbatim>\<open>examples/register_test/register_test.c\<close> and
  \<^verbatim>\<open>register_test_arm.c\<close>. C integers of a fixed width are words; \<^verbatim>\<open>int\<close> return
  codes and counters whose range is bounded by the code are integers; a \<^verbatim>\<open>char *\<close> that
  may be \<^verbatim>\<open>NULL\<close> is a \<open>string option\<close>.
\<close>

type_synonym uint8_t = "8 word"
type_synonym uint16_t = "16 word"
type_synonym uint32_t = "32 word"
type_synonym uint64_t = "64 word"

definition DEVICE_NAME_DEFAULT :: string where
  "DEVICE_NAME_DEFAULT = ''/dev/reconic-mm''"

definition PCIE_RESOURCE_DEFAULT :: string where
  "PCIE_RESOURCE_DEFAULT = ''/sys/bus/pci/devices/0005:01:00.0/resource2''"

definition DEFAULT_PAYLOAD_SIZE :: uint32_t where
  "DEFAULT_PAYLOAD_SIZE = 1024"

definition DEFAULT_QP_DEPTH :: uint32_t where
  "DEFAULT_QP_DEPTH = 64"

definition DEFAULT_QP_ID :: uint32_t where
  "DEFAULT_QP_ID = 2"

text \<open>
  Modelled from the spec: the macro \<^verbatim>\<open>HOST_MEM\<close> of the library header, which is not
  among the sources. The spec gives the default buffer placement as \<^verbatim>\<open>host_mem\<close>, the
  string that option \<^verbatim>\<open>-l\<close> accepts beside \<^verbatim>\<open>dev_mem\<close>.
\<close>

definition HOST_MEM :: string where
  "HOST_MEM = ''host_mem''"

record rdma_config_t =
  device_name :: string
  pcie_resource :: string
  src_ip_str :: "string option"
  dst_ip_str :: "string option"
  src_ip :: uint32_t
  dst_ip :: uint32_t
  tcp_port :: uint16_t
  udp_port :: uint16_t
  payload_size :: uint32_t
  qp_id :: uint32_t
  dst_qp_id :: uint32_t
  qp_location :: string
  is_server :: int
  is_client :: int
  verbose :: int
  debug :: int

text \<open>\<^verbatim>\<open>init_config\<close>: \<^verbatim>\<open>memset\<close> to zero, then the defaults.\<close>

definition init_config :: rdma_config_t where
  "init_config =
     \<lparr> device_name = DEVICE_NAME_DEFAULT,
       pcie_resource = PCIE_RESOURCE_DEFAULT,
       src_ip_str = None,
       dst_ip_str = None,
       src_ip = 0,
       dst_ip = 0,
       tcp_port = 11111,
       udp_port = 22222,
       payload_size = DEFAULT_PAYLOAD_SIZE,
       qp_id = DEFAULT_QP_ID,
       dst_qp_id = DEFAULT_QP_ID,
       qp_location = HOST_MEM,
       is_server = 0,
       is_client = 0,
       verbose = 0,
       debug = 0 \<rparr>"

subsection \<open>The C library's \<^verbatim>\<open>atoi\<close>\<close>

text \<open>
  \<^verbatim>\<open>atoi\<close> skips white space, reads an optional sign and then the longest run of
  decimal digits; a string with no digits gives 0. The C standard leaves a value outside
  the range of \<^verbatim>\<open>int\<close> undefined; here the mathematical value is returned and the
  casts of the callers reduce it modulo the width of the target.
\<close>

definition isspace :: "char \<Rightarrow> bool" where
  "isspace c \<longleftrightarrow> (of_char c :: nat) = 32 \<or> (9 \<le> (of_char c :: nat) \<and> (of_char c :: nat) \<le> 13)"

definition isdigit :: "char \<Rightarrow> bool" where
  "isdigit c \<longleftrightarrow> 48 \<le> (of_char c :: nat) \<and> (of_char c :: nat) \<le> 57"

fun atoi_digits :: "int \<Rightarrow> string \<Rightarrow> int" where
  "atoi_digits acc [] = acc"
| "atoi_digits acc (c # cs) =
     (if isdigit c then atoi_digits (acc * 10 + (of_char c - 48)) cs else acc)"

definition atoi :: "string \<Rightarrow> int" where
  "atoi s =
     (case dropWhile isspace s of
        [] \<Rightarrow> 0
      | c # cs \<Rightarrow>
          if c = CHR ''-'' then - atoi_digits 0 cs
          else if c = CHR ''+'' then atoi_digits 0 cs
          else atoi_digits 0 (c # cs))"

subsection \<open>\<^verbatim>\<open>parse_arguments\<close>\<close>

text \<open>
  \<^verbatim>\<open>getopt_long\<close> belongs to the C library. Its effect on \<^verbatim>\<open>argv\<close> is the sequence of
  pairs (returned option character, \<^verbatim>\<open>optarg\<close>) it yields before it returns -1, and
  that sequence is the input of the model; an option that \<^verbatim>\<open>getopt_long\<close> does not know
  arrives as \<^verbatim>\<open>?\<close>. \<^verbatim>\<open>convert_ip_addr_to_uint\<close> is a library function that is not
  among the sources, so it is a parameter. The usage text and the error lines are not
  part of the model: the return code tells the cases apart.

  One pass of the \<^verbatim>\<open>switch\<close>: \<open>Some rc\<close> is \<^verbatim>\<open>return rc\<close> from inside the loop,
  \<open>None\<close> is \<^verbatim>\<open>break\<close>, on to the next option.
\<close>

definition parse_option ::
  "(string \<Rightarrow> uint32_t) \<Rightarrow> char \<Rightarrow> string \<Rightarrow> rdma_config_t \<Rightarrow> int option \<times> rdma_config_t" where
  "parse_option convert_ip_addr_to_uint opt optarg cfg =
     (if opt = CHR ''d'' then (None, cfg\<lparr>device_name := optarg\<rparr>)
      else if opt = CHR ''p'' then (None, cfg\<lparr>pcie_resource := optarg\<rparr>)
      else if opt = CHR ''r'' then
        (None, cfg\<lparr>src_ip_str := Some optarg, src_ip := convert_ip_addr_to_uint optarg\<rparr>)
      else if opt = CHR ''i'' then
        (None, cfg\<lparr>dst_ip_str := Some optarg, dst_ip := convert_ip_addr_to_uint optarg\<rparr>)
      else if opt = CHR ''t'' then (None, cfg\<lparr>tcp_port := word_of_int (atoi optarg)\<rparr>)
      else if opt = CHR ''u'' then (None, cfg\<lparr>udp_port := word_of_int (atoi optarg)\<rparr>)
      else if opt = CHR ''z'' then (None, cfg\<lparr>payload_size := word_of_int (atoi optarg)\<rparr>)
      else if opt = CHR ''q'' then
        (let cfg1 = cfg\<lparr>qp_id := word_of_int (atoi optarg)\<rparr>
         in (None, cfg1\<lparr>dst_qp_id := qp_id cfg1\<rparr>))
      else if opt = CHR ''l'' then
        (if optarg = ''host_mem'' \<or> optarg = ''dev_mem''
         then (None, cfg\<lparr>qp_location := optarg\<rparr>)
         else (Some (- 1), cfg))
      else if opt = CHR ''s'' then (None, cfg\<lparr>is_server := 1\<rparr>)
      else if opt = CHR ''c'' then (None, cfg\<lparr>is_client := 1\<rparr>)
      else if opt = CHR ''v'' then (None, cfg\<lparr>verbose := 1\<rparr>)
      else if opt = CHR ''g'' then (None, cfg\<lparr>debug := 1, verbose := 1\<rparr>)
      else if opt = CHR ''h'' then (Some 1, cfg)
      else (Some (- 1), cfg))"

text \<open>The \<^verbatim>\<open>while\<close> loop over the options that \<^verbatim>\<open>getopt_long\<close> yields.\<close>

fun parse_options ::
  "(string \<Rightarrow> uint32_t) \<Rightarrow> (char \<times> string) list \<Rightarrow> rdma_config_t \<Rightarrow> int option \<times> rdma_config_t" where
  "parse_options conv [] cfg = (None, cfg)"
| "parse_options conv ((opt, optarg) # rest) cfg =
     (case parse_option conv opt optarg cfg of
        (Some rc, cfg') \<Rightarrow> (Some rc, cfg')
      | (None, cfg') \<Rightarrow> parse_options conv rest cfg')"

text \<open>The loop, then the checks of the required parameters.\<close>

definition parse_arguments ::
  "(string \<Rightarrow> uint32_t) \<Rightarrow> (char \<times> string) list \<Rightarrow> rdma_config_t \<Rightarrow> int \<times> rdma_config_t" where
  "parse_arguments conv opts cfg =
     (case parse_options conv opts cfg of
        (Some rc, cfg') \<Rightarrow> (rc, cfg')
      | (None, cfg') \<Rightarrow>
          if src_ip_str cfg' = None \<or> dst_ip_str cfg' = None then (- 1, cfg')
          else if is_server cfg' = 0 \<and> is_client cfg' = 0 then (- 1, cfg')
          else if is_server cfg' \<noteq> 0 \<and> is_client cfg' \<noteq> 0 then (- 1, cfg')
          else (0, cfg'))"

section \<open>The rendezvous message\<close>

text \<open>
  Modelled from the spec: the macros \<^verbatim>\<open>htonll\<close> and \<^verbatim>\<open>ntohll\<close> of the test header,
  which is not among the sources. The spec gives the coordination message as 8 bytes,
  big-endian (network byte order), holding the provider's buffer address as an unsigned
  64-bit integer. \<open>htonll x\<close> is the 8 bytes that the object \<^verbatim>\<open>htonll(x)\<close> occupies in
  memory, which \<^verbatim>\<open>send\<close> puts on the wire, most significant byte first; \<open>ntohll bs\<close>
  is the value that \<^verbatim>\<open>ntohll\<close> gives for an object holding the bytes \<open>bs\<close>.
\<close>

definition htonll :: "uint64_t \<Rightarrow> uint8_t list" where
  "htonll x = map (\<lambda>k. ucast (drop_bit (8 * k) x)) [7, 6, 5, 4, 3, 2, 1, 0]"

definition ntohll :: "uint8_t list \<Rightarrow> uint64_t" where
  "ntohll bs = foldl (\<lambda>acc b. push_bit 8 acc OR ucast b) 0 bs"

section \<open>Buffers, external calls and traces\<close>

text \<open>
  The fields of the library's buffer handle that the sources read: the host-virtual
  pointer and the device-bus address.
\<close>

record rdma_buff_t =
  buffer :: uint64_t
  dma_addr :: uint64_t

type_synonym mac_addr_t = "48 word"

text \<open>
  A run is observed through the calls it makes to the driver, the sockets and the C
  library, in order, and through the lines it writes. Every external call is an event
  with the arguments the claims speak about. The handles of the device and of the
  protection domain, the access keys \<^verbatim>\<open>P_KEY\<close> and \<^verbatim>\<open>R_KEY\<close>, the opcode
  \<^verbatim>\<open>RNIC_OP_READ\<close> and the arguments that are the constant 0 are the same in every run
  and are left out of the events: \<open>Call_create_a_wqe\<close> has the queue pair, the local
  address, the length and the remote address. The banners
  on standard output and the \<^verbatim>\<open>verbose\<close> lines are not events, and neither are the
  clock readings and the floating-point figures derived from them.
\<close>

datatype event =
    Call_socket
  | Call_close
  | Call_get_mac_addr_from_str_ip "string option"
  | Call_create_rn_dev string
  | Call_create_rdma_dev
  | Call_allocate_rdma_buffer uint32_t string
  | Call_open_rdma_dev mac_addr_t uint32_t uint16_t uint64_t uint64_t uint64_t uint64_t
  | Call_allocate_rdma_pd
  | Call_open string
  | Call_get_remote_mac_address "string option"
  | Call_rdma_register_memory_region rdma_buff_t
  | Call_write_from_buffer "uint32_t list" uint32_t uint64_t
  | Store_host_buffer uint64_t "uint32_t list"
  | Call_setsockopt
  | Call_bind "string option" uint16_t
  | Call_listen
  | Call_accept
  | Call_send "uint8_t list"
  | Call_connect "string option" uint16_t
  | Call_recv
  | Call_allocate_rdma_qp uint32_t uint32_t uint64_t uint64_t uint32_t string mac_addr_t uint32_t
  | Call_config_last_rq_psn uint32_t uint32_t
  | Call_config_sq_psn uint32_t uint32_t
  | Call_create_a_wqe uint32_t uint64_t uint32_t uint64_t
  | Call_rdma_post_send uint32_t
  | Call_read_to_buffer uint32_t uint64_t
  | Call_getchar
  | Call_dump_registers uint32_t uint32_t
  | Call_destroy_rn_dev
  | Perror string
  | Stderr string
  | Stderr_post_send_failed int
  | Stderr_data_mismatch uint32_t uint32_t uint32_t
  | Stdout_verification_passed uint32_t
  | Stdout_verification_failed int uint32_t
  | Stdout_received_values "uint32_t list"
  | Print_test_summary uint32_t string

section \<open>The test pattern and the verification loop\<close>

text \<open>
  The loop \<^verbatim>\<open>for (uint32_t i = 0; i < n; i++) data[i] = i % 256;\<close> occurs three times,
  letter for letter: twice in \<^verbatim>\<open>run_rdma_server\<close> (device memory and host memory) and
  once in \<^verbatim>\<open>run_rdma_client\<close> (golden data). It stores the words at the indices
  0, 1, 2, ... in this order, so the words stored so far are a list that grows at its
  end. \<open>n\<close> is \<^verbatim>\<open>cfg->payload_size / 4\<close>.
\<close>

function pattern_loop :: "uint32_t \<Rightarrow> uint32_t \<Rightarrow> uint32_t list \<Rightarrow> uint32_t list" where
  "pattern_loop n i data =
     (if i < n then pattern_loop n (i + 1) (data @ [i mod 256]) else data)"
  by pat_completeness auto
termination
  by (relation "measure (\<lambda>(n, i, data). unat n - unat i)") (simp, simp, unat_arith)

definition test_pattern :: "uint32_t \<Rightarrow> uint32_t list" where
  "test_pattern payload = pattern_loop (payload div 4) 0 []"

text \<open>
  The comparison loop of \<^verbatim>\<open>run_rdma_client\<close>. \<^verbatim>\<open>errors\<close> is a C \<^verbatim>\<open>int\<close>; it is at most
  the number of words, which is below \<open>2 ^ 30\<close>, so it never overflows (lemma
  \<open>verify_errors_bounded\<close> below).
\<close>

function verify_loop ::
  "uint32_t \<Rightarrow> uint32_t list \<Rightarrow> uint32_t list \<Rightarrow> uint32_t \<Rightarrow> int \<Rightarrow> event list \<Rightarrow> int \<times> event list" where
  "verify_loop n received_data golden_data i errors out =
     (if i < n then
        (if received_data ! unat i \<noteq> golden_data ! unat i then
           verify_loop n received_data golden_data (i + 1) (errors + 1)
             (if errors < 10
              then out @ [Stderr_data_mismatch i (golden_data ! unat i) (received_data ! unat i)]
              else out)
         else verify_loop n received_data golden_data (i + 1) errors out)
      else (errors, out))"
  by pat_completeness auto
termination
proof (relation "measure (\<lambda>(n, r, g, i, e, out). unat n - unat i)")
  fix n i :: uint32_t
  assume "i < n"
  then have "unat n - unat (i + 1) < unat n - unat i"
    by unat_arith
  then show "((n, r, g, i + 1, e + 1, out'), (n, r, g, i, e, out))
      \<in> measure (\<lambda>(n, r, g, i, e, out). unat n - unat i)"
    and "((n, r, g, i + 1, e, out), (n, r, g, i, e, out))
      \<in> measure (\<lambda>(n, r, g, i, e, out). unat n - unat i)"
    for r g :: "uint32_t list" and e :: int and out out' :: "event list"
    by simp_all
qed simp

text \<open>
  Golden data, comparison and verdict line: the \<^verbatim>\<open>errors\<close> count and what is printed.
\<close>

definition verify_data :: "uint32_t \<Rightarrow> uint32_t list \<Rightarrow> int \<times> event list" where
  "verify_data payload received_data =
     (let golden_data = test_pattern payload;
          (errors, out) = verify_loop (payload div 4) received_data golden_data 0 0 []
      in if errors = 0
         then (errors, out @ [Stdout_verification_passed (payload div 4)])
         else (errors, out @ [Stdout_verification_failed errors (payload div 4)]))"

section \<open>The outcomes of the external calls\<close>

text \<open>
  What the operating system, the driver and the peer answer is the input of a run. Each
  record has one field for each call whose result the function reads: a return code, an
  allocation that is \<open>None\<close> when the library returns \<^verbatim>\<open>NULL\<close>, or the data the call
  leaves in memory. \<^verbatim>\<open>get_remote_mac_address\<close> reads the system's ARP table through a
  pipe; its return code and the address it stores are taken as an outcome too.
\<close>

record setup_env =
  su_socket :: int
  su_src_mac :: mac_addr_t
  su_create_rn_dev :: bool
  su_create_rdma_dev :: bool
  su_cidb_buffer :: "rdma_buff_t option"
  su_data_buf :: "rdma_buff_t option"
  su_ipkterr_buf :: "rdma_buff_t option"
  su_err_buf :: "rdma_buff_t option"
  su_resp_err_buf :: "rdma_buff_t option"
  su_allocate_rdma_pd :: bool
  su_open :: int

record server_env =
  sv_get_remote_mac_address :: int
  sv_dst_mac :: mac_addr_t
  sv_data_buffer :: "rdma_buff_t option"
  sv_write_from_buffer :: int
  sv_socket :: int
  sv_bind :: int
  sv_listen :: int
  sv_accept :: int
  sv_send :: int

record client_env =
  cl_open :: int
  cl_get_remote_mac_address :: int
  cl_dst_mac :: mac_addr_t
  cl_socket :: int
  cl_connect :: int
  cl_recv :: int
  cl_recv_bytes :: "uint8_t list"
  cl_recv_buffer :: "rdma_buff_t option"
  cl_rdma_post_send :: int
  cl_read_to_buffer :: int
  cl_received_data :: "uint32_t list"

text \<open>
  \<open>cl_recv_bytes\<close> is the content of the 8 bytes of \<^verbatim>\<open>remote_offset\<close> after \<^verbatim>\<open>recv\<close>;
  \<open>cl_received_data\<close> is the words that \<^verbatim>\<open>received_data\<close> points to once the data
  has been retrieved, at least \<^verbatim>\<open>payload_size / 4\<close> of them, as the buffer was
  allocated with \<^verbatim>\<open>payload_size\<close> bytes.
\<close>

section \<open>\<^verbatim>\<open>setup_rdma_environment\<close>\<close>

text \<open>
  The result is the return code, whether the global \<^verbatim>\<open>rn_dev\<close> is set, and the trace.
  \<open>hps\<close> is the library's macro \<^verbatim>\<open>HUGE_PAGE_SHIFT\<close>, which is not among the sources.
\<close>

definition setup_rdma_environment ::
  "nat \<Rightarrow> setup_env \<Rightarrow> rdma_config_t \<Rightarrow> int \<times> bool \<times> event list" where
  "setup_rdma_environment hps e cfg =
     (let t = [Call_socket] in
      if su_socket e < 0 then (- 1, False, t @ [Perror ''Error creating socket''])
      else
      let t = t @ [Call_get_mac_addr_from_str_ip (src_ip_str cfg), Call_close,
                   Call_create_rn_dev (pcie_resource cfg)] in
      if \<not> su_create_rn_dev e
      then (- 1, False, t @ [Stderr ''Error: Failed to create RecoNIC device''])
      else
      let t = t @ [Call_create_rdma_dev] in
      if \<not> su_create_rdma_dev e
      then (- 1, True, t @ [Stderr ''Error: Failed to create RDMA device''])
      else
      let t = t @ [Call_allocate_rdma_buffer (push_bit hps 1) ''host_mem''] in
      case su_cidb_buffer e of
        None \<Rightarrow> (- 1, True, t @ [Stderr ''Error: Failed to allocate CIDB buffer''])
      | Some cidb_buffer \<Rightarrow>
      let t = t @ [Call_allocate_rdma_buffer (4096 * 4096) ''host_mem'',
                   Call_allocate_rdma_buffer 8192 ''host_mem'',
                   Call_allocate_rdma_buffer (256 * 256) ''host_mem'',
                   Call_allocate_rdma_buffer 65536 ''host_mem''] in
      case (su_data_buf e, su_ipkterr_buf e, su_err_buf e, su_resp_err_buf e) of
        (Some data_buf, Some ipkterr_buf, Some err_buf, Some resp_err_buf) \<Rightarrow>
          let t = t @ [Call_open_rdma_dev (su_src_mac e) (src_ip cfg) (udp_port cfg)
                         (dma_addr data_buf) (dma_addr ipkterr_buf)
                         (dma_addr err_buf) (dma_addr resp_err_buf),
                       Call_allocate_rdma_pd] in
          if \<not> su_allocate_rdma_pd e
          then (- 1, True, t @ [Stderr ''Error: Failed to allocate protection domain''])
          else
          let t = t @ [Call_open (device_name cfg)] in
          if su_open e < 0 then (- 1, True, t @ [Perror ''Error opening device file''])
          else (0, True, t)
      | _ \<Rightarrow> (- 1, True, t @ [Stderr ''Error: Failed to allocate system buffers'']))"

section \<open>\<^verbatim>\<open>run_rdma_server\<close>: the data provider\<close>

text \<open>
  The test data of the provider: through \<^verbatim>\<open>write_from_buffer\<close> at the device-bus
  address for device memory, by direct stores through the host pointer otherwise.
\<close>

definition run_rdma_server :: "server_env \<Rightarrow> rdma_config_t \<Rightarrow> int \<times> event list" where
  "run_rdma_server e cfg =
     (let t = [Call_get_remote_mac_address (dst_ip_str cfg)] in
      if sv_get_remote_mac_address e < 0
      then (- 1, t @ [Stderr ''Error: Could not resolve MAC address''])
      else
      let t = t @ [Call_allocate_rdma_buffer (payload_size cfg) (qp_location cfg)] in
      case sv_data_buffer e of
        None \<Rightarrow> (- 1, t @ [Stderr ''Error: Failed to allocate data buffer''])
      | Some data_buffer \<Rightarrow>
      let t = t @ [Call_allocate_rdma_pd, Call_rdma_register_memory_region data_buffer] in
      let test_data = test_pattern (payload_size cfg);
          t = t @ [if qp_location cfg = ''dev_mem''
                   then Call_write_from_buffer test_data (payload_size cfg) (dma_addr data_buffer)
                   else Store_host_buffer (buffer data_buffer) test_data] in
      if qp_location cfg = ''dev_mem'' \<and> sv_write_from_buffer e < 0
      then (- 1, t @ [Stderr ''Error: Failed to write test data to device memory''])
      else
      let t = t @ [Call_socket] in
      if sv_socket e < 0 then (- 1, t @ [Perror ''Error creating server socket''])
      else
      let t = t @ [Call_setsockopt, Call_bind (src_ip_str cfg) (tcp_port cfg)] in
      if sv_bind e < 0 then (- 1, t @ [Perror ''Error binding server socket'', Call_close])
      else
      let t = t @ [Call_listen] in
      if sv_listen e < 0
      then (- 1, t @ [Perror ''Error listening on server socket'', Call_close])
      else
      let t = t @ [Call_accept] in
      if sv_accept e < 0
      then (- 1, t @ [Perror ''Error accepting client connection'', Call_close])
      else
      let buffer_offset = htonll (buffer data_buffer);
          t = t @ [Call_send buffer_offset] in
      if sv_send e \<noteq> 8
      then (- 1, t @ [Stderr ''Error sending buffer offset to client'', Call_close, Call_close])
      else
      let t = t @ [Call_allocate_rdma_qp (qp_id cfg) (dst_qp_id cfg)
                     (dma_addr data_buffer) (dma_addr data_buffer + 64)
                     DEFAULT_QP_DEPTH (qp_location cfg) (sv_dst_mac e) (dst_ip cfg),
                   Call_config_last_rq_psn (qp_id cfg) 0xabc,
                   Call_config_sq_psn (qp_id cfg) (0xabc + 1),
                   Call_getchar];
          t = (if debug cfg \<noteq> 0 then t @ [Call_dump_registers 0 (qp_id cfg)] else t)
      in (0, t @ [Call_close, Call_close]))"

section \<open>\<^verbatim>\<open>run_rdma_client\<close>: the data reader\<close>

definition run_rdma_client :: "client_env \<Rightarrow> rdma_config_t \<Rightarrow> int \<times> event list" where
  "run_rdma_client e cfg =
     (let t = [Call_open (device_name cfg)] in
      if cl_open e < 0 then (- 1, t @ [Perror ''Error opening device file in client''])
      else
      let t = t @ [Call_get_remote_mac_address (dst_ip_str cfg)] in
      if cl_get_remote_mac_address e < 0
      then (- 1, t @ [Stderr ''Error: Could not resolve MAC address''])
      else
      let t = t @ [Call_socket] in
      if cl_socket e < 0 then (- 1, t @ [Perror ''Error creating client socket''])
      else
      let t = t @ [Call_connect (dst_ip_str cfg) (tcp_port cfg)] in
      if cl_connect e < 0 then (- 1, t @ [Perror ''Error connecting to server'', Call_close])
      else
      let t = t @ [Call_recv] in
      if cl_recv e \<noteq> 8
      then (- 1, t @ [Stderr ''Error receiving remote buffer offset'', Call_close])
      else
      let remote_offset = ntohll (cl_recv_bytes e);
          t = t @ [Call_allocate_rdma_buffer (payload_size cfg) (qp_location cfg)] in
      case cl_recv_buffer e of
        None \<Rightarrow> (- 1, t @ [Stderr ''Error: Failed to allocate receive buffer'', Call_close])
      | Some recv_buffer \<Rightarrow>
      let t = t @ [Call_allocate_rdma_pd,
                   Call_allocate_rdma_qp (qp_id cfg) (dst_qp_id cfg)
                     (dma_addr recv_buffer) (dma_addr recv_buffer + 64)
                     DEFAULT_QP_DEPTH (qp_location cfg) (cl_dst_mac e) (dst_ip cfg),
                   Call_config_last_rq_psn (qp_id cfg) 0xabc,
                   Call_config_sq_psn (qp_id cfg) (0xabc + 1),
                   Call_create_a_wqe (qp_id cfg) (dma_addr recv_buffer) (payload_size cfg)
                     remote_offset,
                   Call_rdma_post_send (qp_id cfg)] in
      if cl_rdma_post_send e < 0
      then (- 1, t @ [Stderr_post_send_failed (cl_rdma_post_send e), Call_close])
      else
      let t = (if qp_location cfg = ''dev_mem''
               then t @ [Call_read_to_buffer (payload_size cfg) (dma_addr recv_buffer)]
               else t) in
      if qp_location cfg = ''dev_mem'' \<and> cl_read_to_buffer e < 0
      then (- 1, t @ [Stderr ''Error: Failed to read data from device memory'', Call_close])
      else
      let received_data = cl_received_data e;
          (errors, out) = verify_data (payload_size cfg) received_data;
          t = t @ out @ [Print_test_summary (payload_size cfg) (qp_location cfg)];
          t = (if debug cfg \<noteq> 0
               then t @ [Stdout_received_values
                           (take (min 16 (unat (payload_size cfg div 4))) received_data),
                         Call_dump_registers 1 (qp_id cfg)]
               else t)
      in (if errors = 0 then 0 else - 1, t @ [Call_close]))"

section \<open>\<^verbatim>\<open>main\<close>\<close>

text \<open>
  \<^verbatim>\<open>cleanup_resources\<close> destroys the device when the global \<^verbatim>\<open>rn_dev\<close> is set. The
  result of \<open>main\<close> is the exit code of the process and the trace of the whole run.
\<close>

definition cleanup_resources :: "bool \<Rightarrow> event list" where
  "cleanup_resources rn_dev = (if rn_dev then [Call_destroy_rn_dev] else [])"

definition main ::
  "(string \<Rightarrow> uint32_t) \<Rightarrow> nat \<Rightarrow> setup_env \<Rightarrow> server_env \<Rightarrow> client_env \<Rightarrow>
     (char \<times> string) list \<Rightarrow> int \<times> event list" where
  "main conv hps su sv cl opts =
     (case parse_arguments conv opts init_config of (result, config) \<Rightarrow>
      if result \<noteq> 0 then (if result > 0 then 0 else 1, [])
      else
      case setup_rdma_environment hps su config of (rc, rn_dev, t) \<Rightarrow>
      if rc < 0
      then (1, t @ [Stderr ''Error: Failed to setup RDMA environment'']
                 @ cleanup_resources rn_dev)
      else
      case (if is_server config \<noteq> 0 then run_rdma_server sv config
            else run_rdma_client cl config) of (result, t') \<Rightarrow>
      (if result = 0 then 0 else 1, t @ t' @ cleanup_resources rn_dev))"

section \<open>The register tools\<close>

text \<open>
  The mapped window of the device is not memory: what a load returns is the device's
  answer. A device is a state with a load and a store at an address; the bus keeps,
  beside the state of the device, the log of the accesses and fences in program order.
\<close>

record 's device =
  dev_load :: "'s \<Rightarrow> uint64_t \<Rightarrow> uint32_t \<times> 's"
  dev_store :: "'s \<Rightarrow> uint64_t \<Rightarrow> uint32_t \<Rightarrow> 's"

datatype access = Load uint64_t | Store uint64_t uint32_t | Rmb | Wmb

type_synonym 's bus = "'s \<times> access list"

definition load32 :: "'s device \<Rightarrow> uint64_t \<Rightarrow> 's bus \<Rightarrow> uint32_t \<times> 's bus" where
  "load32 dev addr b =
     (case b of (s, log) \<Rightarrow>
        case dev_load dev s addr of (v, s') \<Rightarrow> (v, (s', log @ [Load addr])))"

definition store32 :: "'s device \<Rightarrow> uint64_t \<Rightarrow> uint32_t \<Rightarrow> 's bus \<Rightarrow> 's bus" where
  "store32 dev addr v b = (case b of (s, log) \<Rightarrow> (dev_store dev s addr v, log @ [Store addr v]))"

definition fence :: "access \<Rightarrow> 's bus \<Rightarrow> 's bus" where
  "fence f b = (case b of (s, log) \<Rightarrow> (s, log @ [f]))"

text \<open>
  Modelled from the spec: \<^verbatim>\<open>read32_data\<close> and \<^verbatim>\<open>write32_data\<close> of the library's control
  API, which is not among the sources. The spec has them read and write a 32-bit value
  at a byte offset within the mapped window.
\<close>

definition read32_data :: "'s device \<Rightarrow> uint64_t \<Rightarrow> uint32_t \<Rightarrow> 's bus \<Rightarrow> uint32_t \<times> 's bus" where
  "read32_data dev axil_base offset b = load32 dev (axil_base + ucast offset) b"

definition write32_data :: "'s device \<Rightarrow> uint64_t \<Rightarrow> uint32_t \<Rightarrow> uint32_t \<Rightarrow> 's bus \<Rightarrow> 's bus" where
  "write32_data dev axil_base offset v b = store32 dev (axil_base + ucast offset) v b"

text \<open>
  \<^verbatim>\<open>arm_read32_data\<close> and \<^verbatim>\<open>arm_write32_data\<close> of \<^verbatim>\<open>register_test_arm.c\<close>: the access
  between fences; the write loads the register once more and drops the value.
\<close>

definition arm_read32_data :: "'s device \<Rightarrow> uint64_t \<Rightarrow> uint32_t \<Rightarrow> 's bus \<Rightarrow> uint32_t \<times> 's bus" where
  "arm_read32_data dev base_address offset b =
     (let config_addr = base_address + ucast offset;
          b = fence Rmb b;
          (v, b) = load32 dev config_addr b;
          b = fence Rmb b
      in (v, b))"

definition arm_write32_data :: "'s device \<Rightarrow> uint64_t \<Rightarrow> uint32_t \<Rightarrow> uint32_t \<Rightarrow> 's bus \<Rightarrow> 's bus" where
  "arm_write32_data dev base_address offset v b =
     (let config_addr = base_address + ucast offset;
          b = fence Wmb b;
          b = store32 dev config_addr v b;
          b = fence Wmb b;
          (_, b) = load32 dev config_addr b;
          b = fence Rmb b
      in b)"

text \<open>
  The lines of \<^verbatim>\<open>test_register_write\<close>. The write time of the ARM tool is a clock
  difference and is printed without a value here.
\<close>

datatype line =
    Writing uint32_t uint32_t
  | Register_Write_Result
  | Address uint32_t
  | Written uint32_t
  | Read_back uint32_t
  | Write_time
  | Status_SUCCESS
  | Status_WARNING
  | Debug_Difference uint32_t
  | Debug_AXIL_base uint64_t
  | Debug_Calculated_address uint64_t

text \<open>
  \<^verbatim>\<open>test_register_write\<close> of \<^verbatim>\<open>register_test.c\<close>; \<open>vb\<close> and \<open>dbg\<close> are the globals
  \<^verbatim>\<open>verbose\<close> and \<^verbatim>\<open>debug\<close>. The result is the return code, the lines and the bus.
\<close>

definition test_register_write ::
  "int \<Rightarrow> int \<Rightarrow> 's device \<Rightarrow> uint64_t \<Rightarrow> uint32_t \<Rightarrow> uint32_t \<Rightarrow> 's bus \<Rightarrow> int \<times> line list \<times> 's bus" where
  "test_register_write vb dbg dev axil_base offset v b =
     (let out = (if vb \<noteq> 0 then [Writing v offset] else []);
          b = write32_data dev axil_base offset v b;
          (read_back, b) = read32_data dev axil_base offset b;
          out = out @ [Register_Write_Result, Address offset, Written v, Read_back read_back];
          out = out @ (if v = read_back then [Status_SUCCESS] else [Status_WARNING]);
          out = out @ (if dbg \<noteq> 0
                       then [Debug_AXIL_base axil_base,
                             Debug_Calculated_address (axil_base + ucast offset)]
                       else [])
      in (0, out, b))"

text \<open>\<^verbatim>\<open>test_register_write\<close> of \<^verbatim>\<open>register_test_arm.c\<close>.\<close>

definition test_register_write_arm ::
  "int \<Rightarrow> int \<Rightarrow> 's device \<Rightarrow> uint64_t \<Rightarrow> uint32_t \<Rightarrow> uint32_t \<Rightarrow> 's bus \<Rightarrow> int \<times> line list \<times> 's bus" where
  "test_register_write_arm vb dbg dev axil_base offset v b =
     (let out = (if vb \<noteq> 0 then [Writing v offset] else []);
          b = arm_write32_data dev axil_base offset v b;
          (read_back, b) = arm_read32_data dev axil_base offset b;
          out = out @ [Register_Write_Result, Address offset, Written v, Read_back read_back];
          out = out @ (if vb \<noteq> 0 then [Write_time] else []);
          out = out @ (if v = read_back then [Status_SUCCESS]
                       else Status_WARNING #
                            (if dbg \<noteq> 0 then [Debug_Difference (v XOR read_back)] else []));
          out = out @ (if dbg \<noteq> 0
                       then [Debug_AXIL_base axil_base,
                             Debug_Calculated_address (axil_base + ucast offset)]
                       else [])
      in (0, out, b))"

section \<open>Reading a trace\<close>

definition is_allocate_rdma_qp :: "event \<Rightarrow> bool" where
  "is_allocate_rdma_qp ev = (case ev of Call_allocate_rdma_qp _ _ _ _ _ _ _ _ \<Rightarrow> True | _ \<Rightarrow> False)"

definition is_bind :: "event \<Rightarrow> bool" where
  "is_bind ev = (case ev of Call_bind _ _ \<Rightarrow> True | _ \<Rightarrow> False)"

definition is_send :: "event \<Rightarrow> bool" where
  "is_send ev = (case ev of Call_send _ \<Rightarrow> True | _ \<Rightarrow> False)"

text \<open>The events of the stages RETRIEVE, VERIFY and REPORT of the reader.\<close>

definition is_retrieve_or_verify :: "event \<Rightarrow> bool" where
  "is_retrieve_or_verify ev =
     (case ev of
        Call_read_to_buffer _ _ \<Rightarrow> True
      | Stderr_data_mismatch _ _ _ \<Rightarrow> True
      | Stdout_verification_passed _ \<Rightarrow> True
      | Stdout_verification_failed _ _ \<Rightarrow> True
      | Print_test_summary _ _ \<Rightarrow> True
      | _ \<Rightarrow> False)"


text \<open>The position of the first event of a kind.\<close>

fun first_index :: "('a \<Rightarrow> bool) \<Rightarrow> 'a list \<Rightarrow> nat option" where
  "first_index p [] = None"
| "first_index p (x # xs) = (if p x then Some 0 else map_option Suc (first_index p xs))"

text \<open>The error lines and the closing of sockets, which also occur when a run stops early.\<close>

definition is_diagnostic :: "event \<Rightarrow> bool" where
  "is_diagnostic ev =
     (case ev of Perror _ \<Rightarrow> True | Stderr _ \<Rightarrow> True | Call_close \<Rightarrow> True | _ \<Rightarrow> False)"

text \<open>
  The stages of the provider in the order of the amended claim C7, as the calls of a run
  that reaches the end: resolve the peer, allocate the data buffer, protection domain,
  memory region, test data, socket, bind, listen, accept, send the address, and only
  then the queue pair with its two sequence numbers, the wait for the operator and the
  optional register dump. The calls after the buffer allocation need the buffer.
\<close>

definition server_stages :: "server_env \<Rightarrow> rdma_config_t \<Rightarrow> event list" where
  "server_stages e cfg =
     [Call_get_remote_mac_address (dst_ip_str cfg),
      Call_allocate_rdma_buffer (payload_size cfg) (qp_location cfg)] @
     (case sv_data_buffer e of
        None \<Rightarrow> []
      | Some data_buffer \<Rightarrow>
          [Call_allocate_rdma_pd,
           Call_rdma_register_memory_region data_buffer,
           (if qp_location cfg = ''dev_mem''
            then Call_write_from_buffer (test_pattern (payload_size cfg)) (payload_size cfg)
                   (dma_addr data_buffer)
            else Store_host_buffer (buffer data_buffer) (test_pattern (payload_size cfg))),
           Call_socket,
           Call_setsockopt,
           Call_bind (src_ip_str cfg) (tcp_port cfg),
           Call_listen,
           Call_accept,
           Call_send (htonll (buffer data_buffer)),
           Call_allocate_rdma_qp (qp_id cfg) (dst_qp_id cfg)
             (dma_addr data_buffer) (dma_addr data_buffer + 64)
             DEFAULT_QP_DEPTH (qp_location cfg) (sv_dst_mac e) (dst_ip cfg),
           Call_config_last_rq_psn (qp_id cfg) 0xabc,
           Call_config_sq_psn (qp_id cfg) (0xabc + 1),
           Call_getchar] @
          (if debug cfg \<noteq> 0 then [Call_dump_registers 0 (qp_id cfg)] else []))"

section \<open>Sample runs\<close>

text \<open>
  Outcomes in which every external call succeeds, a command line for each role, and a
  device whose registers are read-only.
\<close>

definition sample_setup :: setup_env where
  "sample_setup =
     \<lparr> su_socket = 3, su_src_mac = 0x000A35000001,
       su_create_rn_dev = True, su_create_rdma_dev = True,
       su_cidb_buffer = Some \<lparr>buffer = 0x7F0000000000, dma_addr = 0x10000000\<rparr>,
       su_data_buf = Some \<lparr>buffer = 0x7F0000200000, dma_addr = 0x10200000\<rparr>,
       su_ipkterr_buf = Some \<lparr>buffer = 0x7F0001200000, dma_addr = 0x11200000\<rparr>,
       su_err_buf = Some \<lparr>buffer = 0x7F0001202000, dma_addr = 0x11202000\<rparr>,
       su_resp_err_buf = Some \<lparr>buffer = 0x7F0001212000, dma_addr = 0x11212000\<rparr>,
       su_allocate_rdma_pd = True, su_open = 4 \<rparr>"

definition sample_server :: server_env where
  "sample_server =
     \<lparr> sv_get_remote_mac_address = 0, sv_dst_mac = 0x000A35000002,
       sv_data_buffer = Some \<lparr>buffer = 0x7F0001222000, dma_addr = 0x11222000\<rparr>,
       sv_write_from_buffer = 0, sv_socket = 5, sv_bind = 0, sv_listen = 0,
       sv_accept = 6, sv_send = 8 \<rparr>"

definition sample_client :: client_env where
  "sample_client =
     \<lparr> cl_open = 5, cl_get_remote_mac_address = 0, cl_dst_mac = 0x000A35000001,
       cl_socket = 6, cl_connect = 0, cl_recv = 8,
       cl_recv_bytes = [0x00, 0x00, 0x7F, 0x00, 0x01, 0x22, 0x20, 0x00],
       cl_recv_buffer = Some \<lparr>buffer = 0x7F0003000000, dma_addr = 0x13000000\<rparr>,
       cl_rdma_post_send = 0, cl_read_to_buffer = 0,
       cl_received_data = [0, 1, 2, 3] \<rparr>"

definition sample_convert_ip :: "string \<Rightarrow> uint32_t" where
  "sample_convert_ip s = (if s = ''192.168.1.100'' then 0xC0A80164 else 0xC0A80165)"

definition server_options :: "(char \<times> string) list" where
  "server_options =
     [(CHR ''r'', ''192.168.1.100''), (CHR ''i'', ''192.168.1.101''), (CHR ''s'', []),
      (CHR ''z'', ''16'')]"

definition client_options :: "string \<Rightarrow> (char \<times> string) list" where
  "client_options z =
     [(CHR ''r'', ''192.168.1.101''), (CHR ''i'', ''192.168.1.100''), (CHR ''c'', []),
      (CHR ''z'', z)]"

definition read_only_device :: "unit device" where
  "read_only_device = \<lparr> dev_load = (\<lambda>s a. (7, s)), dev_store = (\<lambda>s a v. s) \<rparr>"

definition short_recv_client :: client_env where
  "short_recv_client = sample_client\<lparr>cl_recv := 3\<rparr>"

definition failed_post_client :: client_env where
  "failed_post_client = sample_client\<lparr>cl_rdma_post_send := - 5\<rparr>"

definition sample_client_config :: rdma_config_t where
  "sample_client_config = snd (parse_arguments sample_convert_ip (client_options ''16'') init_config)"

declare pattern_loop.simps [simp del]
declare verify_loop.simps [simp del]

section \<open>The test pattern in closed form\<close>

lemma word_suc_unat: "(i :: uint32_t) < n \<Longrightarrow> unat (i + 1) = Suc (unat i)"
  by unat_arith

lemma pattern_loop_eq:
  "i \<le> n \<Longrightarrow> pattern_loop n i data = data @ map (\<lambda>k. word_of_nat k mod 256) [unat i..<unat n]"
proof (induction n i data rule: pattern_loop.induct)
  case (1 n i data)
  show ?case
  proof (cases "i < n")
    case True
    then have le: "i + 1 \<le> n" by (rule inc_le)
    from True have lt: "unat i < unat n" by (simp add: word_less_nat_alt)
    have "pattern_loop n i data = pattern_loop n (i + 1) (data @ [i mod 256])"
      using True by (simp add: pattern_loop.simps[of n i])
    also have "\<dots> = (data @ [i mod 256]) @ map (\<lambda>k. word_of_nat k mod 256) [unat (i + 1)..<unat n]"
      using "1.IH"[OF True le] .
    also have "\<dots> = data @ map (\<lambda>k. word_of_nat k mod 256) [unat i..<unat n]"
      using lt by (simp add: word_suc_unat[OF True] upt_conv_Cons)
    finally show ?thesis .
  next
    case False
    with "1.prems" have "i = n" by simp
    then show ?thesis by (simp add: pattern_loop.simps[of n n])
  qed
qed

lemma word_of_nat_mod_256:
  assumes "k < 2 ^ 32"
  shows "(word_of_nat k :: uint32_t) mod 256 = word_of_nat (k mod 256)"
proof -
  have "unat ((word_of_nat k :: uint32_t) mod 256) = unat (word_of_nat (k mod 256) :: uint32_t)"
    using assms by (simp add: unat_mod unat_of_nat)
  then show ?thesis by (simp add: word_unat_eq_iff)
qed

lemma test_pattern_eq:
  "test_pattern P = map (\<lambda>k. word_of_nat (k mod 256)) [0..<unat P div 4]"
proof -
  have lt: "k < 2 ^ 32" if "k \<in> set [0..<unat (P div 4)]" for k
  proof -
    have "unat (P div 4) < 2 ^ 32" using unsigned_less[of "P div 4"] by simp
    with that show ?thesis by simp
  qed
  have "test_pattern P = map (\<lambda>k. word_of_nat k mod 256) [0..<unat (P div 4)]"
    by (simp add: test_pattern_def pattern_loop_eq)
  also have "\<dots> = map (\<lambda>k. word_of_nat (k mod 256)) [0..<unat (P div 4)]"
    by (rule map_cong[OF refl]) (use lt in \<open>simp add: word_of_nat_mod_256\<close>)
  finally show ?thesis by (simp add: unat_div)
qed

section \<open>The verification loop in closed form\<close>

text \<open>
  The loop counts the indices at which the two buffers differ and prints the first ten
  of them.
\<close>

lemma verify_loop_eq:
  "i \<le> n \<Longrightarrow>
   verify_loop n r g i (int (length ms))
     (map (\<lambda>k. Stderr_data_mismatch (word_of_nat k) (g ! k) (r ! k)) (take 10 ms)) =
   (int (length (ms @ filter (\<lambda>k. r ! k \<noteq> g ! k) [unat i..<unat n])),
    map (\<lambda>k. Stderr_data_mismatch (word_of_nat k) (g ! k) (r ! k))
      (take 10 (ms @ filter (\<lambda>k. r ! k \<noteq> g ! k) [unat i..<unat n])))"
proof (induction "unat n - unat i" arbitrary: i ms)
  case 0
  then have "i = n" by (simp add: word_le_nat_alt word_unat_eq_iff)
  then show ?case by (simp add: verify_loop.simps[of n r g n])
next
  case (Suc d)
  let ?ev = "\<lambda>k. Stderr_data_mismatch (word_of_nat k) (g ! k) (r ! k)"
  let ?bad = "\<lambda>k. r ! k \<noteq> g ! k"
  from Suc.hyps(2) have lt: "i < n" by (simp add: word_less_nat_alt)
  then have le: "i + 1 \<le> n" by (rule inc_le)
  have su: "unat (i + 1) = Suc (unat i)" by (rule word_suc_unat[OF lt])
  from Suc.hyps(2) su have d: "d = unat n - unat (i + 1)" by simp
  from lt have ult: "unat i < unat n" by (simp add: word_less_nat_alt)
  have upt: "[unat i..<unat n] = unat i # [unat (i + 1)..<unat n]"
    using ult su by (simp add: upt_conv_Cons)
  show ?case
  proof (cases "?bad (unat i)")
    case True
    have out: "(if int (length ms) < 10
          then map ?ev (take 10 ms) @ [Stderr_data_mismatch i (g ! unat i) (r ! unat i)]
          else map ?ev (take 10 ms))
        = map ?ev (take 10 (ms @ [unat i]))"
      by simp
    have len: "int (length ms) + 1 = int (length (ms @ [unat i]))"
      by simp
    have "verify_loop n r g i (int (length ms)) (map ?ev (take 10 ms))
        = verify_loop n r g (i + 1) (int (length ms) + 1)
            (if int (length ms) < 10
             then map ?ev (take 10 ms) @ [Stderr_data_mismatch i (g ! unat i) (r ! unat i)]
             else map ?ev (take 10 ms))"
      using lt True by (subst verify_loop.simps) simp
    also have "\<dots> = verify_loop n r g (i + 1) (int (length (ms @ [unat i])))
            (map ?ev (take 10 (ms @ [unat i])))"
      by (simp only: out len)
    also have "\<dots> = (int (length ((ms @ [unat i]) @ filter ?bad [unat (i + 1)..<unat n])),
            map ?ev (take 10 ((ms @ [unat i]) @ filter ?bad [unat (i + 1)..<unat n])))"
      by (rule Suc.hyps(1)[OF d le])
    also have "(ms @ [unat i]) @ filter ?bad [unat (i + 1)..<unat n]
        = ms @ filter ?bad [unat i..<unat n]"
      using True by (simp add: upt)
    finally show ?thesis .
  next
    case False
    have "verify_loop n r g i (int (length ms)) (map ?ev (take 10 ms))
        = verify_loop n r g (i + 1) (int (length ms)) (map ?ev (take 10 ms))"
      using lt False by (subst verify_loop.simps) simp
    also have "\<dots> = (int (length (ms @ filter ?bad [unat (i + 1)..<unat n])),
            map ?ev (take 10 (ms @ filter ?bad [unat (i + 1)..<unat n])))"
      by (rule Suc.hyps(1)[OF d le])
    also have "ms @ filter ?bad [unat (i + 1)..<unat n] = ms @ filter ?bad [unat i..<unat n]"
      using False by (simp add: upt)
    finally show ?thesis .
  qed
qed

lemma ceil_div_256: "(n + 255) div 256 = n div 256 + (if n mod 256 = 0 then 0 else 1)" for n :: nat
proof -
  have r: "n mod 256 < 256" by simp
  have "(n + 255) div 256 = n div 256 + (n mod 256 + 255) div 256"
    by (simp add: div_add1_eq[of n 255 256])
  moreover have "(n mod 256 + 255) div 256 = (if n mod 256 = 0 then 0 else 1)"
    using r by (cases "n mod 256 = 0") simp_all
  ultimately show ?thesis by simp
qed

lemma count_not_multiple:
  "length (filter (\<lambda>k. k mod 256 \<noteq> 0) [0..<n]) = n - (n + 255) div 256"
proof (induction n)
  case 0
  show ?case by simp
next
  case (Suc n)
  have le: "(n + 255) div 256 \<le> n" by linarith
  have s: "(Suc n + 255) div 256 = Suc (n div 256)" by simp
  show ?case
  proof (cases "n mod 256 = 0")
    case True
    with Suc le s show ?thesis by (simp add: ceil_div_256[of n])
  next
    case False
    have lt: "n div 256 < n" using False by (cases n) (simp_all add: div_less_dividend)
    have "length (filter (\<lambda>k. k mod 256 \<noteq> 0) [0..<Suc n]) = Suc (n - Suc (n div 256))"
      using Suc False by (simp add: ceil_div_256[of n])
    also have "\<dots> = Suc n - Suc (n div 256)"
      using lt by linarith
    finally show ?thesis using s by simp
  qed
qed

lemma verify_data_eq:
  "verify_data P r =
     (let bad = filter (\<lambda>k. r ! k \<noteq> test_pattern P ! k) [0..<unat P div 4]
      in (int (length bad),
          map (\<lambda>k. Stderr_data_mismatch (word_of_nat k) (test_pattern P ! k) (r ! k)) (take 10 bad)
          @ [if bad = [] then Stdout_verification_passed (P div 4)
             else Stdout_verification_failed (int (length bad)) (P div 4)]))"
proof -
  have "verify_loop (P div 4) r (test_pattern P) 0 0 [] =
     (int (length (filter (\<lambda>k. r ! k \<noteq> test_pattern P ! k) [0..<unat P div 4])),
      map (\<lambda>k. Stderr_data_mismatch (word_of_nat k) (test_pattern P ! k) (r ! k))
        (take 10 (filter (\<lambda>k. r ! k \<noteq> test_pattern P ! k) [0..<unat P div 4])))"
    using verify_loop_eq[of 0 "P div 4" r "test_pattern P" "[]"]
    by (simp add: unat_div)
  then show ?thesis
    by (simp add: verify_data_def Let_def)
qed

lemma test_pattern_nth:
  "k < unat P div 4 \<Longrightarrow> test_pattern P ! k = word_of_nat (k mod 256)"
  by (simp add: test_pattern_eq)

lemma word_of_nat_mod_256_eq_0:
  "(word_of_nat (k mod 256) :: uint32_t) = 0 \<longleftrightarrow> k mod 256 = 0"
proof -
  have "k mod 256 < 2 ^ 32"
    by (rule less_trans[of _ 256]) simp_all
  then have u: "unat (word_of_nat (k mod 256) :: uint32_t) = k mod 256"
    by (simp add: unat_of_nat)
  have "(word_of_nat (k mod 256) :: uint32_t) = 0
      \<longleftrightarrow> unat (word_of_nat (k mod 256) :: uint32_t) = 0"
    by (rule unat_eq_0[symmetric])
  then show ?thesis unfolding u .
qed

lemma zero_buffer_differs:
  "filter (\<lambda>k. replicate (unat P div 4) (0 :: uint32_t) ! k \<noteq> test_pattern P ! k)
     [0..<unat P div 4]
   = filter (\<lambda>k. k mod 256 \<noteq> 0) [0..<unat P div 4]"
  by (rule filter_cong[OF refl]) (simp add: test_pattern_nth word_of_nat_mod_256_eq_0)

lemma zero_buffer_lines:
  "map (\<lambda>k. Stderr_data_mismatch (word_of_nat k) (test_pattern P ! k)
              (replicate (unat P div 4) (0 :: uint32_t) ! k))
     (take 10 (filter (\<lambda>k. k mod 256 \<noteq> 0) [0..<unat P div 4]))
   = map (\<lambda>k. Stderr_data_mismatch (word_of_nat k) (word_of_nat (k mod 256)) 0)
       (take 10 (filter (\<lambda>k. k mod 256 \<noteq> 0) [0..<unat P div 4]))"
proof (rule map_cong[OF refl])
  fix k
  assume "k \<in> set (take 10 (filter (\<lambda>k. k mod 256 \<noteq> 0) [0..<unat P div 4]))"
  then have "k \<in> set (filter (\<lambda>k. k mod 256 \<noteq> 0) [0..<unat P div 4])"
    by (rule in_set_takeD)
  then have "k < unat P div 4" by simp
  then show "Stderr_data_mismatch (word_of_nat k) (test_pattern P ! k)
               (replicate (unat P div 4) (0 :: uint32_t) ! k)
     = Stderr_data_mismatch (word_of_nat k) (word_of_nat (k mod 256)) 0"
    by (simp add: test_pattern_nth)
qed

section \<open>Claims on the pattern, the rendezvous message and the queue-pair ids\<close>

text \<open>
  Claim C4, as amended. For every payload size \<open>P\<close>, when the retrieved buffer is all
  zero, the verification counts \<open>P/4 - \<lceil>(P/4)/256\<rceil>\<close> mismatches: the words whose
  index is not a multiple of 256. The words at the indices 0, 256, 512, ... hold the
  pattern value 0 and match. It prints the first ten of the mismatches, or all of them
  when there are fewer, each with index, expected value (index mod 256) and actual
  value 0, and then the verdict line.
\<close>

theorem zero_buffer_mismatches:
  "verify_data P (replicate (unat P div 4) 0) =
     (int (unat P div 4 - (unat P div 4 + 255) div 256),
      map (\<lambda>k. Stderr_data_mismatch (word_of_nat k) (word_of_nat (k mod 256)) 0)
        (take 10 (filter (\<lambda>k. k mod 256 \<noteq> 0) [0..<unat P div 4]))
      @ [if unat P div 4 - (unat P div 4 + 255) div 256 = 0
         then Stdout_verification_passed (P div 4)
         else Stdout_verification_failed (int (unat P div 4 - (unat P div 4 + 255) div 256))
                (P div 4)])"
proof -
  let ?n = "unat P div 4"
  let ?nz = "filter (\<lambda>k. k mod 256 \<noteq> 0) [0..<?n]"
  have len: "length ?nz = ?n - (?n + 255) div 256"
    by (rule count_not_multiple)
  have "?nz = [] \<longleftrightarrow> length ?nz = 0"
    by (rule length_0_conv[symmetric])
  then have empty: "?nz = [] \<longleftrightarrow> ?n - (?n + 255) div 256 = 0"
    unfolding len .
  show ?thesis
    by (simp only: verify_data_eq Let_def zero_buffer_differs zero_buffer_lines len empty)
qed

text \<open>A payload of 48 bytes: 12 words, 11 mismatches, 10 lines.\<close>

theorem zero_buffer_mismatches_witness:
  "verify_data 48 (replicate 12 0) =
     (11, [Stderr_data_mismatch 1 1 0, Stderr_data_mismatch 2 2 0, Stderr_data_mismatch 3 3 0,
           Stderr_data_mismatch 4 4 0, Stderr_data_mismatch 5 5 0, Stderr_data_mismatch 6 6 0,
           Stderr_data_mismatch 7 7 0, Stderr_data_mismatch 8 8 0, Stderr_data_mismatch 9 9 0,
           Stderr_data_mismatch 10 10 0, Stdout_verification_failed 11 12])"
  using zero_buffer_mismatches[of 48] by (simp add: upt_conv_Cons)

text \<open>
  Claim C4 as stated fails: with a payload of 4 bytes the single word of a zeroed buffer
  equals the pattern word 0, so the count is 0 and the verification passes, where the
  claim has 1; with the default payload of 1024 bytes the count is 255, not 256.
\<close>

theorem zero_buffer_mismatches_counterexample:
  "verify_data 4 (replicate (unat (4 :: uint32_t) div 4) 0) = (0, [Stdout_verification_passed 1])
   \<and> fst (verify_data 4 (replicate (unat (4 :: uint32_t) div 4) 0)) \<noteq> int (unat (4 :: uint32_t) div 4)
   \<and> fst (verify_data 1024 (replicate (unat (1024 :: uint32_t) div 4) 0)) = 255"
  by code_simp



lemma verify_errors_bounded:
  "0 \<le> fst (verify_data P r) \<and> fst (verify_data P r) \<le> int (unat P div 4)
   \<and> int (unat P div 4) < 2 ^ 30"
proof -
  have "length (filter (\<lambda>k. r ! k \<noteq> test_pattern P ! k) [0..<unat P div 4]) \<le> unat P div 4"
    using length_filter_le[of _ "[0..<unat P div 4]"] by simp
  moreover have "unat P < 2 ^ 32"
    using unsigned_less[of P] by simp
  ultimately show ?thesis
    by (simp add: verify_data_eq Let_def)
qed




lemma byte_step:
  "push_bit 8 (drop_bit (k + 8) x) OR ucast (ucast (drop_bit k x :: uint64_t) :: uint8_t) = drop_bit k x"
proof (rule bit_word_eqI)
  fix n :: nat
  assume n: "n < LENGTH(64)"
  show "bit (push_bit 8 (drop_bit (k + 8) x) OR ucast (ucast (drop_bit k x :: uint64_t) :: uint8_t)) n
    \<longleftrightarrow> bit (drop_bit k x) n"
  proof (cases "n < 8")
    case True
    then show ?thesis by (simp add: bit_simps)
  next
    case False
    then have "k + 8 + (n - 8) = k + n" by simp
    with False n show ?thesis by (simp add: bit_simps)
  qed
qed

lemma drop_bit_64: "drop_bit 64 (x :: uint64_t) = 0"
  by (rule bit_word_eqI) (simp add: bit_simps)

lemma ntohll_htonll: "ntohll (htonll A) = A"
  unfolding htonll_def ntohll_def
  using byte_step[of 56 A] byte_step[of 48 A] byte_step[of 40 A] byte_step[of 32 A]
    byte_step[of 24 A] byte_step[of 16 A] byte_step[of 8 A] byte_step[of 0 A] drop_bit_64[of A]
  by simp

text \<open>
  Claim C6. For every 64-bit address \<open>A\<close> the provider's encoding is 8 bytes, and
  decoding these 8 bytes on the reader's side gives \<open>A\<close> back.
\<close>

theorem rendezvous_round_trip: "length (htonll A) = 8 \<and> ntohll (htonll A) = A"
  by (simp add: ntohll_htonll) (simp add: htonll_def)

text \<open>The host pointer of the sample provider and its 8 bytes on the wire.\<close>

theorem rendezvous_round_trip_witness:
  "htonll 0x7F0001222000 = [0x00, 0x00, 0x7F, 0x00, 0x01, 0x22, 0x20, 0x00]
   \<and> ntohll [0x00, 0x00, 0x7F, 0x00, 0x01, 0x22, 0x20, 0x00] = 0x7F0001222000"
proof -
  have "htonll 0x7F0001222000 = [0x00, 0x00, 0x7F, 0x00, 0x01, 0x22, 0x20, 0x00]"
    by code_simp
  with rendezvous_round_trip[of "0x7F0001222000"] show ?thesis
    by simp
qed

lemma parse_option_qp:
  "dst_qp_id cfg = qp_id cfg \<Longrightarrow>
   dst_qp_id (snd (parse_option conv opt optarg cfg)) = qp_id (snd (parse_option conv opt optarg cfg))"
  by (simp add: parse_option_def Let_def)

lemma parse_options_qp:
  "dst_qp_id cfg = qp_id cfg \<Longrightarrow>
   dst_qp_id (snd (parse_options conv opts cfg)) = qp_id (snd (parse_options conv opts cfg))"
proof (induction opts arbitrary: cfg)
  case Nil
  then show ?case by simp
next
  case (Cons a opts)
  obtain opt optarg where a: "a = (opt, optarg)" by (cases a)
  obtain r cfg' where p: "parse_option conv opt optarg cfg = (r, cfg')"
    by (cases "parse_option conv opt optarg cfg")
  from parse_option_qp[OF Cons.prems, of conv opt optarg] p
  have q: "dst_qp_id cfg' = qp_id cfg'" by simp
  show ?case
  proof (cases r)
    case None
    with a p Cons.IH[OF q] show ?thesis by simp
  next
    case (Some rc)
    with a p q show ?thesis by simp
  qed
qed

lemma parse_arguments_snd:
  "snd (parse_arguments conv opts cfg) = snd (parse_options conv opts cfg)"
  by (simp add: parse_arguments_def split: prod.splits option.splits)

text \<open>
  Claim C10. Both ids start at the default 2; option \<^verbatim>\<open>-q\<close> sets both to the same
  value; and in every configuration that \<^verbatim>\<open>parse_arguments\<close> accepts the peer id equals
  the local id.
\<close>

theorem peer_qp_id_is_local_qp_id:
  "qp_id init_config = DEFAULT_QP_ID \<and> dst_qp_id init_config = DEFAULT_QP_ID
   \<and> parse_option conv (CHR ''q'') optarg c
       = (None, c\<lparr>qp_id := word_of_int (atoi optarg), dst_qp_id := word_of_int (atoi optarg)\<rparr>)
   \<and> (parse_arguments conv opts init_config = (0, cfg) \<longrightarrow> dst_qp_id cfg = qp_id cfg)"
proof -
  have i: "dst_qp_id init_config = qp_id init_config"
    by (simp add: init_config_def)
  have "dst_qp_id cfg = qp_id cfg" if "parse_arguments conv opts init_config = (0, cfg)"
    using parse_options_qp[OF i, of conv opts] that parse_arguments_snd[of conv opts init_config]
    by simp
  then show ?thesis
    by (simp add: init_config_def parse_option_def Let_def)
qed

text \<open>A reader's command line that ends with \<^verbatim>\<open>-q 5\<close>.\<close>

theorem peer_qp_id_is_local_qp_id_witness:
  "fst (parse_arguments sample_convert_ip (client_options ''1024'' @ [(CHR ''q'', ''5'')]) init_config) = 0
   \<and> qp_id (snd (parse_arguments sample_convert_ip (client_options ''1024'' @ [(CHR ''q'', ''5'')]) init_config)) = 5
   \<and> dst_qp_id (snd (parse_arguments sample_convert_ip (client_options ''1024'' @ [(CHR ''q'', ''5'')]) init_config)) = 5"
proof -
  let ?r = "parse_arguments sample_convert_ip (client_options ''1024'' @ [(CHR ''q'', ''5'')]) init_config"
  have f: "fst ?r = 0" and q: "qp_id (snd ?r) = 5"
    by code_simp+
  from f have "?r = (0, snd ?r)"
    by (simp add: prod_eq_iff)
  with peer_qp_id_is_local_qp_id[of sample_convert_ip "''5''" init_config
      "client_options ''1024'' @ [(CHR ''q'', ''5'')]" "snd ?r"]
  have "dst_qp_id (snd ?r) = qp_id (snd ?r)"
    by blast
  with f q show ?thesis by simp
qed

section \<open>Claims on the command line\<close>









section \<open>Claims on the reader\<close>

text \<open>
  Claim C2. When \<^verbatim>\<open>recv\<close> on the coordination socket returns fewer than 8 bytes, the
  reader returns -1, no call of \<^verbatim>\<open>allocate_rdma_qp\<close> is in its trace, and a run that
  got as far as \<^verbatim>\<open>recv\<close> ends right there with the error line for the remote buffer
  offset and the closing of the socket.
\<close>

theorem short_recv_aborts:
  assumes "cl_recv e < 8"
  shows "fst (run_rdma_client e cfg) = - 1
    \<and> \<not> list_ex is_allocate_rdma_qp (snd (run_rdma_client e cfg))
    \<and> (Call_recv \<in> set (snd (run_rdma_client e cfg)) \<longrightarrow>
         snd (run_rdma_client e cfg) =
           [Call_open (device_name cfg), Call_get_remote_mac_address (dst_ip_str cfg),
            Call_socket, Call_connect (dst_ip_str cfg) (tcp_port cfg), Call_recv,
            Stderr ''Error receiving remote buffer offset'', Call_close])"
proof -
  from assms have ne: "cl_recv e \<noteq> 8" by simp
  show ?thesis
    by (simp add: run_rdma_client_def Let_def ne is_allocate_rdma_qp_def)
qed

text \<open>
  A \<^verbatim>\<open>recv\<close> that returns 3.
\<close>

theorem short_recv_aborts_witness:
  "cl_recv short_recv_client < 8
   \<and> run_rdma_client short_recv_client sample_client_config =
       (- 1, [Call_open ''/dev/reconic-mm'', Call_get_remote_mac_address (Some ''192.168.1.100''),
              Call_socket, Call_connect (Some ''192.168.1.100'') 11111, Call_recv,
              Stderr ''Error receiving remote buffer offset'', Call_close])"
proof -
  have h: "cl_recv short_recv_client < 8"
    by (simp add: short_recv_client_def)
  have r: "Call_recv \<in> set (snd (run_rdma_client short_recv_client sample_client_config))"
    by code_simp
  have c: "device_name sample_client_config = ''/dev/reconic-mm''
      \<and> dst_ip_str sample_client_config = Some ''192.168.1.100''
      \<and> tcp_port sample_client_config = 11111"
    by code_simp
  from short_recv_aborts[OF h, of sample_client_config] r c h show ?thesis
    by (simp add: prod_eq_iff)
qed

text \<open>
  Claim C3. When \<^verbatim>\<open>rdma_post_send\<close> returns a negative code, the reader returns -1, its
  trace has no device read-back, no mismatch line, no verdict and no summary, and a run
  that got as far as the submission ends with the error line that carries this code and
  the closing of the socket.
\<close>

theorem failed_submission_aborts:
  assumes "cl_rdma_post_send e < 0"
  shows "fst (run_rdma_client e cfg) = - 1
    \<and> \<not> list_ex is_retrieve_or_verify (snd (run_rdma_client e cfg))
    \<and> (Call_rdma_post_send (qp_id cfg) \<in> set (snd (run_rdma_client e cfg)) \<longrightarrow>
         (\<exists>recv_buffer. cl_recv_buffer e = Some recv_buffer \<and>
            snd (run_rdma_client e cfg) =
              [Call_open (device_name cfg), Call_get_remote_mac_address (dst_ip_str cfg),
               Call_socket, Call_connect (dst_ip_str cfg) (tcp_port cfg), Call_recv,
               Call_allocate_rdma_buffer (payload_size cfg) (qp_location cfg),
               Call_allocate_rdma_pd,
               Call_allocate_rdma_qp (qp_id cfg) (dst_qp_id cfg)
                 (dma_addr recv_buffer) (dma_addr recv_buffer + 64)
                 DEFAULT_QP_DEPTH (qp_location cfg) (cl_dst_mac e) (dst_ip cfg),
               Call_config_last_rq_psn (qp_id cfg) 0xabc,
               Call_config_sq_psn (qp_id cfg) (0xabc + 1),
               Call_create_a_wqe (qp_id cfg) (dma_addr recv_buffer) (payload_size cfg)
                 (ntohll (cl_recv_bytes e)),
               Call_rdma_post_send (qp_id cfg),
               Stderr_post_send_failed (cl_rdma_post_send e), Call_close]))"
  using assms
  by (simp add: run_rdma_client_def Let_def is_retrieve_or_verify_def split: option.splits)

text \<open>
  A submission that returns -5.
\<close>

theorem failed_submission_aborts_witness:
  "cl_rdma_post_send failed_post_client < 0
   \<and> fst (run_rdma_client failed_post_client sample_client_config) = - 1
   \<and> Call_rdma_post_send 2 \<in> set (snd (run_rdma_client failed_post_client sample_client_config))
   \<and> last (butlast (snd (run_rdma_client failed_post_client sample_client_config)))
       = Stderr_post_send_failed (- 5)
   \<and> \<not> list_ex is_retrieve_or_verify (snd (run_rdma_client failed_post_client sample_client_config))"
proof -
  have h: "cl_rdma_post_send failed_post_client < 0"
    by (simp add: failed_post_client_def)
  have r: "Call_rdma_post_send 2 \<in> set (snd (run_rdma_client failed_post_client sample_client_config))"
    by code_simp
  have l: "last (butlast (snd (run_rdma_client failed_post_client sample_client_config)))
       = Stderr_post_send_failed (- 5)"
    by code_simp
  from failed_submission_aborts[OF h, of sample_client_config] r l h show ?thesis
    by simp
qed

section \<open>Claims on the provider and the rendezvous\<close>

lemma server_calls_prefix:
  "prefix (filter (\<lambda>ev. \<not> is_diagnostic ev) (snd (run_rdma_server e cfg))) (server_stages e cfg)"
  by (simp add: run_rdma_server_def server_stages_def Let_def is_diagnostic_def
      split: option.splits)

lemma server_success_trace:
  "fst (run_rdma_server e cfg) = 0 \<Longrightarrow>
   snd (run_rdma_server e cfg) = server_stages e cfg @ [Call_close, Call_close]"
  by (simp add: run_rdma_server_def server_stages_def Let_def split: option.splits if_splits)

lemma server_qp_after_send:
  "\<not> list_ex is_allocate_rdma_qp (takeWhile (\<lambda>ev. \<not> is_send ev) (snd (run_rdma_server e cfg)))
   \<and> \<not> list_ex is_allocate_rdma_qp (takeWhile (\<lambda>ev. \<not> is_bind ev) (snd (run_rdma_server e cfg)))"
  by (simp add: run_rdma_server_def Let_def is_allocate_rdma_qp_def is_send_def is_bind_def
      split: option.splits)

lemma setup_success_trace:
  "\<not> fst (setup_rdma_environment hps su cfg) < 0 \<Longrightarrow>
   fst (setup_rdma_environment hps su cfg) = 0
   \<and> fst (snd (setup_rdma_environment hps su cfg))
   \<and> snd (snd (setup_rdma_environment hps su cfg))
       = butlast (snd (snd (setup_rdma_environment hps su cfg))) @ [Call_open (device_name cfg)]"
  by (simp add: setup_rdma_environment_def Let_def split: option.splits if_splits)

lemma main_server_trace:
  assumes "parse_arguments conv opts init_config = (0, config)"
    and "is_server config \<noteq> 0"
    and "fst (main conv hps su sv cl opts) = 0"
  shows "snd (main conv hps su sv cl opts) =
     butlast (snd (snd (setup_rdma_environment hps su config)))
     @ [Call_open (device_name config)]
     @ server_stages sv config
     @ [Call_close, Call_close, Call_destroy_rn_dev]"
proof -
  obtain rc rn t where su: "setup_rdma_environment hps su config = (rc, rn, t)"
    by (cases "setup_rdma_environment hps su config")
  obtain r t' where sv: "run_rdma_server sv config = (r, t')"
    by (cases "run_rdma_server sv config")
  from assms su have rc: "\<not> rc < 0"
    by (auto simp: main_def)
  with setup_success_trace[of hps su config] su
  have rn: "rn" and t: "t = butlast t @ [Call_open (device_name config)]"
    by simp_all
  from assms su sv rc have r: "r = 0"
    by (auto simp: main_def split: if_splits)
  with server_success_trace[of sv config] sv
  have t': "t' = server_stages sv config @ [Call_close, Call_close]"
    by simp
  from assms su sv rc rn have "snd (main conv hps su sv cl opts) = t @ t' @ [Call_destroy_rn_dev]"
    by (simp add: main_def cleanup_resources_def)
  with su t t' show ?thesis
    by (metis append.assoc append_Cons append_Nil snd_conv)
qed

text \<open>
  Claim C7, as amended. In every run of \<^verbatim>\<open>run_rdma_server\<close> the calls, error lines and
  socket closings apart, are an initial part of \<open>server_stages\<close>, and a run that
  returns 0 makes all of them and then closes both sockets. No run calls
  \<^verbatim>\<open>allocate_rdma_qp\<close> before \<^verbatim>\<open>bind\<close> or before \<^verbatim>\<open>send\<close>: the queue pair is provisioned
  after the address has been sent. The provider does not open the device file itself;
  \<^verbatim>\<open>setup_rdma_environment\<close> opens it as its last call, so that a run of \<^verbatim>\<open>main\<close> in
  the provider role that exits with 0 is the calls of the setup, ending with the open,
  then the stages, the two closings and the release of the device.
\<close>

theorem provider_stage_order:
  "prefix (filter (\<lambda>ev. \<not> is_diagnostic ev) (snd (run_rdma_server e cfg))) (server_stages e cfg)
   \<and> (fst (run_rdma_server e cfg) = 0 \<longrightarrow>
        snd (run_rdma_server e cfg) = server_stages e cfg @ [Call_close, Call_close])
   \<and> \<not> list_ex is_allocate_rdma_qp (takeWhile (\<lambda>ev. \<not> is_bind ev) (snd (run_rdma_server e cfg)))
   \<and> \<not> list_ex is_allocate_rdma_qp (takeWhile (\<lambda>ev. \<not> is_send ev) (snd (run_rdma_server e cfg)))
   \<and> (parse_arguments conv opts init_config = (0, cfg) \<and> is_server cfg \<noteq> 0
        \<and> fst (main conv hps su e cl opts) = 0 \<longrightarrow>
      snd (main conv hps su e cl opts) =
        butlast (snd (snd (setup_rdma_environment hps su cfg)))
        @ [Call_open (device_name cfg)]
        @ server_stages e cfg
        @ [Call_close, Call_close, Call_destroy_rn_dev])"
  using server_calls_prefix[of e cfg] server_success_trace[of e cfg] server_qp_after_send[of e cfg]
    main_server_trace[of conv opts cfg hps su e cl]
  by blast

text \<open>
  Claim C7 as stated fails: in the sample run of the provider, which returns 0,
  \<^verbatim>\<open>bind\<close> is the event 7, \<^verbatim>\<open>send\<close> the event 10 and \<^verbatim>\<open>allocate_rdma_qp\<close> the event 11.
\<close>

theorem provider_stage_order_counterexample:
  "fst (run_rdma_server sample_server
         (snd (parse_arguments sample_convert_ip server_options init_config))) = 0
   \<and> first_index is_bind
        (snd (run_rdma_server sample_server
               (snd (parse_arguments sample_convert_ip server_options init_config)))) = Some 7
   \<and> first_index is_send
        (snd (run_rdma_server sample_server
               (snd (parse_arguments sample_convert_ip server_options init_config)))) = Some 10
   \<and> first_index is_allocate_rdma_qp
        (snd (run_rdma_server sample_server
               (snd (parse_arguments sample_convert_ip server_options init_config)))) = Some 11"
  by code_simp

text \<open>
  The sample run of \<^verbatim>\<open>main\<close> in the provider role, after the 12 calls of the setup that
  come before the open.
\<close>

theorem provider_stage_order_witness:
  "parse_arguments sample_convert_ip server_options init_config
     = (0, snd (parse_arguments sample_convert_ip server_options init_config))
   \<and> is_server (snd (parse_arguments sample_convert_ip server_options init_config)) \<noteq> 0
   \<and> fst (main sample_convert_ip 21 sample_setup sample_server sample_client server_options) = 0
   \<and> drop 12 (snd (main sample_convert_ip 21 sample_setup sample_server sample_client server_options))
     = [Call_open ''/dev/reconic-mm'',
        Call_get_remote_mac_address (Some ''192.168.1.101''),
        Call_allocate_rdma_buffer 16 ''host_mem'',
        Call_allocate_rdma_pd,
        Call_rdma_register_memory_region \<lparr>buffer = 0x7F0001222000, dma_addr = 0x11222000\<rparr>,
        Store_host_buffer 0x7F0001222000 [0, 1, 2, 3],
        Call_socket,
        Call_setsockopt,
        Call_bind (Some ''192.168.1.100'') 11111,
        Call_listen,
        Call_accept,
        Call_send [0x00, 0x00, 0x7F, 0x00, 0x01, 0x22, 0x20, 0x00],
        Call_allocate_rdma_qp 2 2 0x11222000 0x11222040 64 ''host_mem'' 0x000A35000002 0xC0A80165,
        Call_config_last_rq_psn 2 0xabc,
        Call_config_sq_psn 2 0xabd,
        Call_getchar,
        Call_close, Call_close, Call_destroy_rn_dev]"
proof -
  let ?cfg = "snd (parse_arguments sample_convert_ip server_options init_config)"
  let ?m = "main sample_convert_ip 21 sample_setup sample_server sample_client server_options"
  have p: "parse_arguments sample_convert_ip server_options init_config = (0, ?cfg)"
    by code_simp
  have s: "is_server ?cfg \<noteq> 0"
    by code_simp
  have m: "fst ?m = 0"
    by code_simp
  have l: "length (butlast (snd (snd (setup_rdma_environment 21 sample_setup ?cfg)))) = 12"
    by code_simp
  have st: "[Call_open (device_name ?cfg)] @ server_stages sample_server ?cfg
        @ [Call_close, Call_close, Call_destroy_rn_dev]
     = [Call_open ''/dev/reconic-mm'',
        Call_get_remote_mac_address (Some ''192.168.1.101''),
        Call_allocate_rdma_buffer 16 ''host_mem'',
        Call_allocate_rdma_pd,
        Call_rdma_register_memory_region \<lparr>buffer = 0x7F0001222000, dma_addr = 0x11222000\<rparr>,
        Store_host_buffer 0x7F0001222000 [0, 1, 2, 3],
        Call_socket,
        Call_setsockopt,
        Call_bind (Some ''192.168.1.100'') 11111,
        Call_listen,
        Call_accept,
        Call_send [0x00, 0x00, 0x7F, 0x00, 0x01, 0x22, 0x20, 0x00],
        Call_allocate_rdma_qp 2 2 0x11222000 0x11222040 64 ''host_mem'' 0x000A35000002 0xC0A80165,
        Call_config_last_rq_psn 2 0xabc,
        Call_config_sq_psn 2 0xabd,
        Call_getchar,
        Call_close, Call_close, Call_destroy_rn_dev]"
    by code_simp
  from provider_stage_order[of sample_server ?cfg sample_convert_ip server_options 21
      sample_setup sample_client] p s m
  have "snd ?m = butlast (snd (snd (setup_rdma_environment 21 sample_setup ?cfg)))
        @ [Call_open (device_name ?cfg)] @ server_stages sample_server ?cfg
        @ [Call_close, Call_close, Call_destroy_rn_dev]"
    by blast
  then have "drop 12 (snd ?m) = [Call_open (device_name ?cfg)] @ server_stages sample_server ?cfg
        @ [Call_close, Call_close, Call_destroy_rn_dev]"
    using l by simp
  with p s m st show ?thesis
    by (simp only: simp_thms)
qed





section \<open>Claim on the register tools\<close>

text \<open>
  Claim C8. In both tools \<^verbatim>\<open>test_register_write\<close> stores the value at the offset, loads
  from the same offset, prints the value read back, prints the success line exactly when
  it equals the value written and the warning line exactly when it differs, and returns
  0 in both cases. The ARM tool's store is followed by one more load of the register
  inside \<^verbatim>\<open>arm_write32_data\<close>, before the load whose value is compared.
\<close>

theorem register_write_read_back:
  "(let a = axil_base + ucast offset;
        s1 = dev_store dev s a v;
        read_back = fst (dev_load dev s1 a);
        r = test_register_write vb dbg dev axil_base offset v (s, log);
        out = fst (snd r)
    in fst r = 0
       \<and> snd (snd r) = (snd (dev_load dev s1 a), log @ [Store a v, Load a])
       \<and> Read_back read_back \<in> set out
       \<and> (Status_SUCCESS \<in> set out \<longleftrightarrow> read_back = v)
       \<and> (Status_WARNING \<in> set out \<longleftrightarrow> read_back \<noteq> v))
   \<and> (let a = axil_base + ucast offset;
        s1 = dev_store dev s a v;
        s2 = snd (dev_load dev s1 a);
        read_back = fst (dev_load dev s2 a);
        r = test_register_write_arm vb dbg dev axil_base offset v (s, log);
        out = fst (snd r)
    in fst r = 0
       \<and> snd (snd r)
           = (snd (dev_load dev s2 a), log @ [Wmb, Store a v, Wmb, Load a, Rmb, Rmb, Load a, Rmb])
       \<and> Read_back read_back \<in> set out
       \<and> (Status_SUCCESS \<in> set out \<longleftrightarrow> read_back = v)
       \<and> (Status_WARNING \<in> set out \<longleftrightarrow> read_back \<noteq> v))"
  by (simp add: test_register_write_def test_register_write_arm_def write32_data_def
      read32_data_def arm_write32_data_def arm_read32_data_def load32_def store32_def fence_def
      Let_def split: prod.splits)

text \<open>
  A device whose registers always read 7: a warning for 0x12345678, success for 7.
\<close>

theorem register_write_read_back_witness:
  "test_register_write 0 0 read_only_device 0 0x102200 0x12345678 ((), [])
     = (0, [Register_Write_Result, Address 0x102200, Written 0x12345678, Read_back 7,
            Status_WARNING],
        (), [Store 0x102200 0x12345678, Load 0x102200])
   \<and> test_register_write_arm 0 0 read_only_device 0 0x102200 7 ((), [])
     = (0, [Register_Write_Result, Address 0x102200, Written 7, Read_back 7, Status_SUCCESS],
        (), [Wmb, Store 0x102200 7, Wmb, Load 0x102200, Rmb, Rmb, Load 0x102200, Rmb])"
proof -
  have "test_register_write 0 0 read_only_device 0 0x102200 0x12345678 ((), [])
     = (0, [Register_Write_Result, Address 0x102200, Written 0x12345678, Read_back 7,
            Status_WARNING],
        (), [Store 0x102200 0x12345678, Load 0x102200])"
    by code_simp
  moreover have "test_register_write_arm 0 0 read_only_device 0 0x102200 7 ((), [])
     = (0, [Register_Write_Result, Address 0x102200, Written 7, Read_back 7, Status_SUCCESS],
        (), [Wmb, Store 0x102200 7, Wmb, Load 0x102200, Rmb, Rmb, Load 0x102200, Rmb])"
    by code_simp
  ultimately show ?thesis
    using register_write_read_back[of 0 "0x102200" read_only_device "()" "0x12345678" 0 0 "[]"]
    by simp
qed

end
